theory Spec2Isabelle
  imports Main "HOL-Library.Sublist"
begin

section \<open>The interactive A2A client (client/client.py)\<close>

text \<open>
  The client reads operator lines, wraps each as a protocol message, hands it to the SDK's
  client and drains the sequence of response items the SDK yields. Everything the program
  does beyond computing values is written out: the operator's keyboard is a list of pending
  lines, the terminal is a trace of output events, every \<^verbatim>\<open>raise\<close> is a
  result \<open>Inl e\<close>, and the collaborators the source imports (the SDK client, \<^verbatim>\<open>uuid4\<close>,
  the JSON and rich formatting) are parameters.
\<close>

subsection \<open>Strings\<close>

text \<open>
  A \<open>string\<close> stands for a Python \<^verbatim>\<open>str\<close> whose code points are below 256;
  a \<open>char\<close> is the code point of the same number. On these, \<^verbatim>\<open>str.isspace\<close>
  holds for the code points 9 to 13, 28 to 32, 133 and 160, and \<^verbatim>\<open>str.lower\<close>
  adds 32 to the code points 65 to 90 and 192 to 222 except 215.
\<close>

definition isspace :: "char \<Rightarrow> bool" where
  "isspace c = (let n = (of_char c :: nat) in
     (9 \<le> n \<and> n \<le> 13) \<or> (28 \<le> n \<and> n \<le> 32) \<or> n = 133 \<or> n = 160)"

definition strip :: "string \<Rightarrow> string" where
  "strip s = rev (dropWhile isspace (rev (dropWhile isspace s)))"

definition lower_char :: "char \<Rightarrow> char" where
  "lower_char c = (let n = (of_char c :: nat) in
     if (65 \<le> n \<and> n \<le> 90) \<or> (192 \<le> n \<and> n \<le> 222 \<and> n \<noteq> 215)
     then char_of (n + 32) else c)"

definition lower :: "string \<Rightarrow> string" where
  "lower s = map lower_char s"

text \<open>\<^verbatim>\<open>needle in haystack\<close> on strings: a contiguous occurrence.\<close>

definition str_in :: "string \<Rightarrow> string \<Rightarrow> bool" where
  "str_in needle haystack = sublist needle haystack"

subsection \<open>Exceptions\<close>

text \<open>
  An exception is kept as far as the program looks at it: which of the classes named in an
  \<^verbatim>\<open>except\<close> clause it is an instance of (\<open>RuntimeError\<close> is a subclass of
  \<open>Exception\<close>, which is a subclass of \<open>BaseException\<close>), the name of its class, and
  \<^verbatim>\<open>str(e)\<close>.
\<close>

datatype exc_base = BaseException | Exception | RuntimeError

datatype py_exception = PyExc (exc_base: exc_base) (exc_class: string) (exc_str: string)

definition isinstance_Exception :: "py_exception \<Rightarrow> bool" where
  "isinstance_Exception e = (exc_base e \<noteq> BaseException)"

definition isinstance_RuntimeError :: "py_exception \<Rightarrow> bool" where
  "isinstance_RuntimeError e = (exc_base e = RuntimeError)"

definition EOFError :: py_exception where
  "EOFError = PyExc Exception ''EOFError'' ''EOF when reading a line''"

subsection \<open>Protocol values (a2a.types)\<close>

datatype role = Role_user | Role_agent

record part =
  kind :: string
  text' :: string

record message =
  role :: role
  parts :: "part list"
  messageId :: string
  taskId :: "string option"
  contextId :: "string option"

datatype task_state =
    TaskState_submitted | TaskState_working | TaskState_input_required
  | TaskState_completed | TaskState_canceled | TaskState_failed
  | TaskState_rejected | TaskState_auth_required | TaskState_unknown

record task_status =
  state :: task_state

record task =
  id' :: string
  context_id' :: string
  status :: task_status

text \<open>The update of a streaming pair is only passed on to the rendering.\<close>

datatype update = No_update | Update_event string

text \<open>
  A response item: a \<^verbatim>\<open>(Task, Update)\<close> tuple, or anything else, which the client takes
  for a \<^verbatim>\<open>Message\<close>.
\<close>

datatype response_item = Tuple task update | Reply message

text \<open>
  What \<^verbatim>\<open>client.send_message\<close> returns: the items it yields, and how the iteration
  ends, by exhaustion (\<open>None\<close>) or by raising.
\<close>

type_synonym response_stream = "response_item list \<times> py_exception option"

text \<open>What \<^verbatim>\<open>print_json_response\<close> is called with.\<close>

datatype payload = Task_update_dict task update | Item message

subsection \<open>The world: keyboard, terminal, collaborators\<close>

datatype event =
    Print string
  | RPrint string
  | RPrint_syntax string
  | Input string
  | SendMessage message

record world =
  stdin :: "string list"
  uuid_calls :: nat
  trace :: "event list"

text \<open>
  The SDK client answers a message with a response stream; the answer may depend on the
  messages sent before.
\<close>

record client =
  send_message :: "message list \<Rightarrow> message \<Rightarrow> response_stream"

text \<open>
  The library functions: \<open>uuid4_hex rt k\<close> is what the \<open>k\<close>-th call of
  \<^verbatim>\<open>uuid4().hex\<close> returns, \<open>json_syntax rt p\<close> is the outcome of the formatting in the
  \<^verbatim>\<open>try\<close> block of \<^verbatim>\<open>print_json_response\<close> (the text that is printed, or the
  exception raised), \<open>repr rt p\<close> is \<^verbatim>\<open>repr(p)\<close>.
\<close>

record runtime =
  uuid4_hex :: "nat \<Rightarrow> string"
  json_syntax :: "payload \<Rightarrow> py_exception + string"
  repr :: "payload \<Rightarrow> string"

definition emit :: "event \<Rightarrow> world \<Rightarrow> world" where
  "emit ev w = w\<lparr>trace := trace w @ [ev]\<rparr>"

text \<open>The messages handed to the SDK so far, oldest first.\<close>

fun sent :: "event list \<Rightarrow> message list" where
  "sent [] = []"
| "sent (SendMessage m # evs) = m # sent evs"
| "sent (_ # evs) = sent evs"

text \<open>The calls of \<^verbatim>\<open>input\<close> so far (their prompts), oldest first.\<close>

fun prompts :: "event list \<Rightarrow> string list" where
  "prompts [] = []"
| "prompts (Input p # evs) = p # prompts evs"
| "prompts (_ # evs) = prompts evs"

text \<open>
  \<^verbatim>\<open>input(prompt)\<close>: the next pending line, or \<^verbatim>\<open>EOFError\<close> when the operator has
  closed the input.
\<close>

definition input :: "string \<Rightarrow> world \<Rightarrow> (py_exception + string) \<times> world" where
  "input prompt w =
     (case stdin w of
        [] \<Rightarrow> (Inl EOFError, emit (Input prompt) w)
      | line # rest \<Rightarrow> (Inr line, emit (Input prompt) (w\<lparr>stdin := rest\<rparr>)))"

subsection \<open>build_message\<close>

text \<open>
  \<^verbatim>\<open>task_id if task_id else None\<close>: Python's truth value of an optional string is false
  for \<^verbatim>\<open>None\<close> and for the empty string.
\<close>

definition if_truthy :: "string option \<Rightarrow> string option" where
  "if_truthy x = (case x of None \<Rightarrow> None | Some s \<Rightarrow> if s = [] then None else Some s)"

definition build_message ::
  "runtime \<Rightarrow> string \<Rightarrow> string option \<Rightarrow> string option \<Rightarrow> world \<Rightarrow> message \<times> world" where
  "build_message rt txt task_id context_id w =
     (\<lparr>role = Role_user,
       parts = [\<lparr>kind = ''text'', text' = txt\<rparr>],
       messageId = uuid4_hex rt (uuid_calls w),
       taskId = if_truthy task_id,
       contextId = if_truthy context_id\<rparr>,
      w\<lparr>uuid_calls := Suc (uuid_calls w)\<rparr>)"

subsection \<open>print_json_response\<close>

definition print_json_response ::
  "runtime \<Rightarrow> payload \<Rightarrow> string \<Rightarrow> world \<Rightarrow> (py_exception + unit) \<times> world" where
  "print_json_response rt response title w =
     (let w1 = emit (Print (CHR 0x0A # ''=== '' @ title @ '' ==='')) w in
      case json_syntax rt response of
        Inr json_str \<Rightarrow> (Inr (), emit (RPrint_syntax json_str) w1)
      | Inl e \<Rightarrow>
          if isinstance_Exception e
          then (Inr (),
                emit (RPrint (repr rt response))
                  (emit (RPrint (''[red bold]Error printing JSON:[/red bold] '' @ exc_str e)) w1))
          else (Inl e, w1))"

subsection \<open>handle_message\<close>

text \<open>
  The texts the program prints. The pictographs that open them in the source lie outside
  the code points a \<open>string\<close> holds and are left out; nothing the program does depends
  on them.
\<close>

definition follow_up_prompt :: string where
  "follow_up_prompt = '' Agent needs more input. Your reply: ''"

definition no_response_text :: string where
  "no_response_text = ''  No response received from agent''"

definition disconnect_text :: string where
  "disconnect_text =
     ''  Agent connection ended unexpectedly. Please check if the agent is running correctly.''"

text \<open>
  \<open>handle_message\<close> is the coroutine of the source; \<open>drain\<close> is its
  \<^verbatim>\<open>async for\<close> loop over the items still to come, with the running
  \<^verbatim>\<open>response_count\<close>. An exception inside the loop leaves it at once; the
  \<^verbatim>\<open>except RuntimeError\<close> clause of \<open>handle_message\<close> then sees it, whichever
  statement of the \<^verbatim>\<open>try\<close> block raised it.
\<close>

function handle_message ::
    "runtime \<Rightarrow> client \<Rightarrow> string \<Rightarrow> string option \<Rightarrow> string option \<Rightarrow> world
      \<Rightarrow> (py_exception + unit) \<times> world"
  and drain ::
    "runtime \<Rightarrow> client \<Rightarrow> response_item list \<Rightarrow> py_exception option \<Rightarrow> nat \<Rightarrow> world
      \<Rightarrow> (py_exception + nat) \<times> world"
where
  "handle_message rt cl txt task_id context_id w =
     (case build_message rt txt task_id context_id w of
        (message, w1) \<Rightarrow>
          (case send_message cl (sent (trace w1)) message of
             (items, ending) \<Rightarrow>
               (case drain rt cl items ending 0 (emit (SendMessage message) w1) of
                  (Inr response_count, w2) \<Rightarrow>
                    (Inr (), if response_count = 0 then emit (Print no_response_text) w2 else w2)
                | (Inl e, w2) \<Rightarrow>
                    if isinstance_RuntimeError e \<and> str_in ''StopAsyncIteration'' (exc_str e)
                    then (Inr (), emit (Print disconnect_text) w2)
                    else (Inl e, w2))))"
| "drain rt cl [] ending response_count w =
     (case ending of
        None \<Rightarrow> (Inr response_count, w)
      | Some e \<Rightarrow> (Inl e, w))"
| "drain rt cl (item # rest) ending response_count w =
     (case item of
        Tuple tsk upd \<Rightarrow>
          (case print_json_response rt (Task_update_dict tsk upd) ''Streaming Update'' w of
             (Inl e, w1) \<Rightarrow> (Inl e, w1)
           | (Inr _, w1) \<Rightarrow>
               if state (status tsk) = TaskState_input_required
               then (case input follow_up_prompt w1 of
                       (Inl e, w2) \<Rightarrow> (Inl e, w2)
                     | (Inr follow_up, w2) \<Rightarrow>
                         (case handle_message rt cl follow_up
                                 (Some (id' tsk)) (Some (context_id' tsk)) w2 of
                            (Inl e, w3) \<Rightarrow> (Inl e, w3)
                          | (Inr _, w3) \<Rightarrow> drain rt cl rest ending (Suc response_count) w3))
               else drain rt cl rest ending (Suc response_count) w1)
      | Reply m \<Rightarrow>
          (case print_json_response rt (Item m) ''Agent Reply'' w of
             (Inl e, w1) \<Rightarrow> (Inl e, w1)
           | (Inr _, w1) \<Rightarrow> drain rt cl rest ending (Suc response_count) w1))"
  by pat_completeness auto

text \<open>
  Every recursive call is made after the operator has given one more line, so the pending
  lines bound the depth of the recursion; the items of a stream bound its loop.
\<close>

lemma stdin_emit [simp]: "stdin (emit ev w) = stdin w"
  by (simp add: emit_def)

lemma input_stdin: "input p w = (r, w') \<Longrightarrow> length (stdin w') \<le> length (stdin w)"
  by (auto simp: input_def split: list.splits)

lemma input_Inr_stdin: "input p w = (Inr l, w') \<Longrightarrow> length (stdin w') < length (stdin w)"
  by (auto simp: input_def split: list.splits)

lemma print_json_response_stdin: "print_json_response rt p t w = (r, w') \<Longrightarrow> stdin w' = stdin w"
  by (auto simp: print_json_response_def Let_def split: sum.splits if_splits)

lemma build_message_stdin: "build_message rt t a b w = (m, w') \<Longrightarrow> stdin w' = stdin w"
  by (auto simp: build_message_def)

lemma stdin_le_partial:
  "handle_message_drain_dom (Inl (rt, cl, tx, task_id, context_id, w)) \<Longrightarrow>
     length (stdin (snd (handle_message rt cl tx task_id context_id w))) \<le> length (stdin w)"
  "handle_message_drain_dom (Inr (rt, cl, items, ending, response_count, w)) \<Longrightarrow>
     length (stdin (snd (drain rt cl items ending response_count w))) \<le> length (stdin w)"
proof (induction rt cl tx task_id context_id w and rt cl items ending response_count w
    rule: handle_message_drain.pinduct)
  case (1 rt cl tx task_id context_id w)
  obtain m w1 where bm: "build_message rt tx task_id context_id w = (m, w1)"
    by (cases "build_message rt tx task_id context_id w")
  obtain items ending where sm: "send_message cl (sent (trace w1)) m = (items, ending)"
    by (cases "send_message cl (sent (trace w1)) m")
  obtain r w2 where dr: "drain rt cl items ending 0 (emit (SendMessage m) w1) = (r, w2)"
    by (cases "drain rt cl items ending 0 (emit (SendMessage m) w1)")
  from "1.IH" [OF bm [symmetric] sm [symmetric]] dr
  have "length (stdin w2) \<le> length (stdin w1)" by simp
  with build_message_stdin [OF bm] have "length (stdin w2) \<le> length (stdin w)" by simp
  then show ?case
    using "1.hyps" by (simp add: handle_message.psimps bm sm dr split: sum.splits)
next
  case (2 rt cl ending response_count w)
  then show ?case by (simp add: drain.psimps split: option.splits)
next
  case (3 rt cl item rest ending response_count w)
  show ?case
  proof (cases item)
    case (Tuple tsk upd)
    obtain r1 w1 where pj:
      "print_json_response rt (Task_update_dict tsk upd) ''Streaming Update'' w = (r1, w1)"
      by (cases "print_json_response rt (Task_update_dict tsk upd) ''Streaming Update'' w")
    note w1 = print_json_response_stdin [OF pj]
    show ?thesis
    proof (cases r1)
      case (Inl e)
      then show ?thesis using "3.hyps" Tuple pj w1 by (simp add: drain.psimps)
    next
      case (Inr u)
      show ?thesis
      proof (cases "state (status tsk) = TaskState_input_required")
        case False
        from "3.IH"(3) [OF Tuple pj [symmetric] Inr False]
        show ?thesis using "3.hyps" Tuple pj Inr False w1 by (simp add: drain.psimps)
      next
        case True
        obtain r2 w2 where inp: "input follow_up_prompt w1 = (r2, w2)"
          by (cases "input follow_up_prompt w1")
        note w2 = input_stdin [OF inp]
        show ?thesis
        proof (cases r2)
          case (Inl e)
          then show ?thesis using "3.hyps" Tuple pj Inr True inp w1 w2
            by (simp add: drain.psimps)
        next
          case (Inr follow_up)
          obtain r3 w3 where hm:
            "handle_message rt cl follow_up (Some (id' tsk)) (Some (context_id' tsk)) w2 = (r3, w3)"
            by (cases "handle_message rt cl follow_up (Some (id' tsk)) (Some (context_id' tsk)) w2")
          from "3.IH"(1) [OF Tuple pj [symmetric] \<open>r1 = Inr u\<close> True inp [symmetric] Inr] hm
          have w3: "length (stdin w3) \<le> length (stdin w2)" by simp
          show ?thesis
          proof (cases r3)
            case (Inl e)
            then show ?thesis using "3.hyps" Tuple pj \<open>r1 = Inr u\<close> True inp \<open>r2 = Inr follow_up\<close> hm w1 w2 w3
              by (simp add: drain.psimps)
          next
            case (Inr v)
            from "3.IH"(2) [OF Tuple pj [symmetric] \<open>r1 = Inr u\<close> True inp [symmetric]
                \<open>r2 = Inr follow_up\<close> hm [symmetric] Inr]
            show ?thesis using "3.hyps" Tuple pj \<open>r1 = Inr u\<close> True inp \<open>r2 = Inr follow_up\<close> hm Inr w1 w2 w3
              by (simp add: drain.psimps)
          qed
        qed
      qed
    qed
  next
    case (Reply m)
    obtain r1 w1 where pj: "print_json_response rt (Item m) ''Agent Reply'' w = (r1, w1)"
      by (cases "print_json_response rt (Item m) ''Agent Reply'' w")
    note w1 = print_json_response_stdin [OF pj]
    show ?thesis
    proof (cases r1)
      case (Inl e)
      then show ?thesis using "3.hyps" Reply pj w1 by (simp add: drain.psimps)
    next
      case (Inr u)
      from "3.IH"(4) [OF Reply pj [symmetric] Inr]
      show ?thesis using "3.hyps" Reply pj Inr w1 by (simp add: drain.psimps)
    qed
  qed
qed

termination handle_message
  apply (relation "measures [
     (\<lambda>x. case x of Inl (rt, cl, tx, a, b, w) \<Rightarrow> length (stdin w)
                     | Inr (rt, cl, items, ending, c, w) \<Rightarrow> length (stdin w)),
     (\<lambda>x. case x of Inl _ \<Rightarrow> Suc 0 | Inr _ \<Rightarrow> 0),
     (\<lambda>x. case x of Inl _ \<Rightarrow> 0 | Inr (rt, cl, items, ending, c, w) \<Rightarrow> length items)]")
  subgoal by simp
  subgoal premises prems using build_message_stdin [OF prems(1) [symmetric]] by simp
  subgoal premises prems
    using print_json_response_stdin [OF prems(2) [symmetric]]
      input_Inr_stdin [OF prems(5) [unfolded prems(6), symmetric]] by simp
  subgoal premises prems
    using print_json_response_stdin [OF prems(2) [symmetric]]
      input_Inr_stdin [OF prems(5) [unfolded prems(6), symmetric]]
      stdin_le_partial(1) [OF prems(9)] prems(7) [symmetric] by simp
  subgoal premises prems using print_json_response_stdin [OF prems(2) [symmetric]] by simp
  subgoal premises prems using print_json_response_stdin [OF prems(2) [symmetric]] by simp
  done

declare handle_message.simps [simp del]

subsection \<open>What a run leaves behind\<close>

text \<open>
  Every operation only appends to the terminal's trace, only draws further identifiers and
  only takes lines from the front of the pending input.
\<close>

definition extends :: "world \<Rightarrow> world \<Rightarrow> bool" where
  "extends w w' =
     (prefix (trace w) (trace w') \<and> uuid_calls w \<le> uuid_calls w' \<and> suffix (stdin w') (stdin w))"

lemma extends_refl [simp]: "extends w w"
  by (simp add: extends_def)

lemma extends_trans: "extends w1 w2 \<Longrightarrow> extends w2 w3 \<Longrightarrow> extends w1 w3"
  unfolding extends_def by (meson prefix_order.trans suffix_order.trans le_trans)

lemma extends_emit: "extends w w' \<Longrightarrow> extends w (emit ev w')"
  by (auto simp: extends_def emit_def intro: prefix_order.trans)

lemma input_extends: "input p w = (r, w') \<Longrightarrow> extends w w'"
  by (auto simp: input_def extends_def emit_def suffix_Cons split: list.splits)

lemma print_json_response_extends: "print_json_response rt p t w = (r, w') \<Longrightarrow> extends w w'"
  by (auto simp: print_json_response_def Let_def extends_def emit_def split: sum.splits if_splits)

lemma build_message_extends: "build_message rt t a b w = (m, w') \<Longrightarrow> extends w w'"
  by (auto simp: build_message_def extends_def)

lemma handle_message_drain_extends:
  "extends w (snd (handle_message rt cl tx task_id context_id w))"
  "extends w (snd (drain rt cl items ending response_count w))"
proof (induction rt cl tx task_id context_id w and rt cl items ending response_count w
    rule: handle_message_drain.induct)
  case (1 rt cl tx task_id context_id w)
  obtain m w1 where bm: "build_message rt tx task_id context_id w = (m, w1)"
    by (cases "build_message rt tx task_id context_id w")
  obtain items ending where sm: "send_message cl (sent (trace w1)) m = (items, ending)"
    by (cases "send_message cl (sent (trace w1)) m")
  obtain r w2 where dr: "drain rt cl items ending 0 (emit (SendMessage m) w1) = (r, w2)"
    by (cases "drain rt cl items ending 0 (emit (SendMessage m) w1)")
  from "1.IH" [OF bm [symmetric] sm [symmetric]] dr
  have "extends (emit (SendMessage m) w1) w2" by simp
  moreover have "extends w (emit (SendMessage m) w1)"
    using build_message_extends [OF bm] by (rule extends_emit)
  ultimately have "extends w w2" by (blast intro: extends_trans)
  then show ?case
    by (auto simp: handle_message.simps bm sm dr split: sum.splits intro: extends_emit)
next
  case (2 rt cl ending response_count w)
  then show ?case by (simp split: option.splits)
next
  case (3 rt cl item rest ending response_count w)
  show ?case
  proof (cases item)
    case (Tuple tsk upd)
    obtain r1 w1 where pj:
      "print_json_response rt (Task_update_dict tsk upd) ''Streaming Update'' w = (r1, w1)"
      by (cases "print_json_response rt (Task_update_dict tsk upd) ''Streaming Update'' w")
    note w1 = print_json_response_extends [OF pj]
    show ?thesis
    proof (cases r1)
      case (Inl e)
      then show ?thesis using Tuple pj w1 by simp
    next
      case (Inr u)
      show ?thesis
      proof (cases "state (status tsk) = TaskState_input_required")
        case False
        from "3.IH"(3) [OF Tuple pj [symmetric] Inr False] w1
        show ?thesis using Tuple pj Inr False by (auto intro: extends_trans)
      next
        case True
        obtain r2 w2 where inp: "input follow_up_prompt w1 = (r2, w2)"
          by (cases "input follow_up_prompt w1")
        have w2: "extends w w2"
          using w1 input_extends [OF inp] by (rule extends_trans)
        show ?thesis
        proof (cases r2)
          case (Inl e)
          then show ?thesis using Tuple pj Inr True inp w2 by simp
        next
          case (Inr follow_up)
          obtain r3 w3 where hm:
            "handle_message rt cl follow_up (Some (id' tsk)) (Some (context_id' tsk)) w2 = (r3, w3)"
            by (cases "handle_message rt cl follow_up (Some (id' tsk)) (Some (context_id' tsk)) w2")
          from "3.IH"(1) [OF Tuple pj [symmetric] \<open>r1 = Inr u\<close> True inp [symmetric] Inr] hm
          have "extends w2 w3" by simp
          with w2 have w3: "extends w w3" by (rule extends_trans)
          show ?thesis
          proof (cases r3)
            case (Inl e)
            then show ?thesis using Tuple pj \<open>r1 = Inr u\<close> True inp \<open>r2 = Inr follow_up\<close> hm w3
              by simp
          next
            case (Inr v)
            from "3.IH"(2) [OF Tuple pj [symmetric] \<open>r1 = Inr u\<close> True inp [symmetric]
                \<open>r2 = Inr follow_up\<close> hm [symmetric] Inr] w3
            show ?thesis using Tuple pj \<open>r1 = Inr u\<close> True inp \<open>r2 = Inr follow_up\<close> hm Inr
              by (auto intro: extends_trans)
          qed
        qed
      qed
    qed
  next
    case (Reply m)
    obtain r1 w1 where pj: "print_json_response rt (Item m) ''Agent Reply'' w = (r1, w1)"
      by (cases "print_json_response rt (Item m) ''Agent Reply'' w")
    note w1 = print_json_response_extends [OF pj]
    show ?thesis
    proof (cases r1)
      case (Inl e)
      then show ?thesis using Reply pj w1 by simp
    next
      case (Inr u)
      from "3.IH"(4) [OF Reply pj [symmetric] Inr] w1
      show ?thesis using Reply pj Inr by (auto intro: extends_trans)
    qed
  qed
qed

lemma handle_message_stdin_le:
  "length (stdin (snd (handle_message rt cl tx task_id context_id w))) \<le> length (stdin w)"
  using handle_message_drain_extends(1) [of w rt cl tx task_id context_id]
  by (simp add: extends_def suffix_length_le)

subsection \<open>interactive_loop\<close>

definition instructions_text :: string where
  "instructions_text = CHR 0x0A # ''Enter your query below. Type 'exit' to quit.''"

definition query_prompt :: string where
  "query_prompt = CHR 0x0A # '' Your query: ''"

definition exiting_text :: string where
  "exiting_text = '' Exiting...''"

definition exit_keywords :: "string set" where
  "exit_keywords = {''exit'', ''quit''}"

text \<open>
  The \<^verbatim>\<open>while True\<close> loop of \<open>interactive_loop\<close>. It ends by \<^verbatim>\<open>break\<close> on
  an exit keyword, or by an exception of \<^verbatim>\<open>input\<close> or of \<open>handle_message\<close>, which
  the function does not catch.
\<close>

function while_True :: "runtime \<Rightarrow> client \<Rightarrow> world \<Rightarrow> (py_exception + unit) \<times> world" where
  "while_True rt cl w =
     (case input query_prompt w of
        (Inl e, w1) \<Rightarrow> (Inl e, w1)
      | (Inr line, w1) \<Rightarrow>
          (let query = strip line in
           if lower query \<in> exit_keywords
           then (Inr (), emit (Print exiting_text) w1)
           else (case handle_message rt cl query None None w1 of
                   (Inl e, w2) \<Rightarrow> (Inl e, w2)
                 | (Inr _, w2) \<Rightarrow> while_True rt cl w2)))"
  by pat_completeness auto
termination
  apply (relation "measure (\<lambda>(rt, cl, w). length (stdin w))")
   apply simp
  subgoal premises prems for rt cl w x y line q xa yb
    using input_Inr_stdin [OF prems(1) [unfolded prems(2), symmetric]]
      handle_message_stdin_le [of rt cl q None None y] prems(5) [symmetric]
    by simp
  done

declare while_True.simps [simp del]

definition interactive_loop ::
  "runtime \<Rightarrow> client \<Rightarrow> bool \<Rightarrow> world \<Rightarrow> (py_exception + unit) \<times> world" where
  "interactive_loop rt cl supports_streaming w =
     while_True rt cl (emit (Print instructions_text) w)"

section \<open>Example collaborators\<close>

text \<open>
  Concrete collaborators on which the theorems below are run: a runtime whose identifiers
  never repeat and whose formatting succeeds, one whose formatting fails as
  \<^verbatim>\<open>json.dumps\<close> does on a value it cannot serialise, and four agents.
\<close>

definition example_runtime :: runtime where
  "example_runtime =
     \<lparr>uuid4_hex = (\<lambda>k. replicate (Suc k) CHR ''a''),
      json_syntax = (\<lambda>p. Inr ''{}''),
      repr = (\<lambda>p. ''<payload>'')\<rparr>"


definition example_world :: "string list \<Rightarrow> world" where
  "example_world lines = \<lparr>stdin = lines, uuid_calls = 0, trace = []\<rparr>"

definition example_reply :: message where
  "example_reply =
     \<lparr>role = Role_agent, parts = [\<lparr>kind = ''text'', text' = ''It is noon.''\<rparr>],
      messageId = ''r1'', taskId = None, contextId = None\<rparr>"

definition example_task :: "task_state \<Rightarrow> task" where
  "example_task st = \<lparr>id' = ''t1'', context_id' = ''c1'', status = \<lparr>state = st\<rparr>\<rparr>"

text \<open>An agent that answers every message with one terminal reply.\<close>

definition reply_client :: client where
  "reply_client = \<lparr>send_message = (\<lambda>history m. ([Reply example_reply], None))\<rparr>"

text \<open>An agent whose response sequence is empty.\<close>

definition silent_client :: client where
  "silent_client = \<lparr>send_message = (\<lambda>history m. ([], None))\<rparr>"




text \<open>
  An agent that asks for more input on a new conversation and completes the task on the
  follow-up.
\<close>

definition asking_client :: client where
  "asking_client =
     \<lparr>send_message = (\<lambda>history m.
        if taskId m = None
        then ([Tuple (example_task TaskState_input_required) No_update], None)
        else ([Tuple (example_task TaskState_completed) No_update], None))\<rparr>"

section \<open>Message construction\<close>

text \<open>
  Claim C2, as amended. A message built with no task or context identifier carries neither.
  A message built with both identifiers supplied and non-empty carries exactly these two.
  (An identifier supplied as the empty string is dropped, as the example after the theorem
  shows.)
\<close>

theorem build_message_correlation:
  "taskId (fst (build_message rt txt None None w)) = None \<and>
   contextId (fst (build_message rt txt None None w)) = None \<and>
   (task_id \<noteq> [] \<and> context_id \<noteq> [] \<longrightarrow>
      taskId (fst (build_message rt txt (Some task_id) (Some context_id) w)) = Some task_id \<and>
      contextId (fst (build_message rt txt (Some task_id) (Some context_id) w)) = Some context_id)"
  by (simp add: build_message_def if_truthy_def)

theorem build_message_correlation_witness:
  "taskId (fst (build_message example_runtime ''continue'' (Some ''t1'') (Some ''c1'')
      (example_world []))) = Some ''t1'' \<and>
   contextId (fst (build_message example_runtime ''continue'' (Some ''t1'') (Some ''c1'')
      (example_world []))) = Some ''c1''"
  using build_message_correlation
    [of example_runtime "''continue''" "example_world []" "''t1''" "''c1''"]
  by simp

text \<open>
  The claim as first stated asks for the supplied identifiers whenever both are not
  \<^verbatim>\<open>None\<close>. The empty string is not \<^verbatim>\<open>None\<close>, and the follow-up built
  with it carries no task identifier.
\<close>

theorem build_message_empty_ids_counterexample:
  "\<not> (taskId (fst (build_message example_runtime ''continue'' (Some '''') (Some ''c1'')
         (example_world []))) = Some '''' \<and>
      contextId (fst (build_message example_runtime ''continue'' (Some '''') (Some ''c1'')
         (example_world []))) = Some ''c1'')"
  by (simp add: build_message_def if_truthy_def)

text \<open>
  Claim C10. An identifier supplied as the empty string is left out of the message, so a
  follow-up built with two empty identifiers is the message of a new conversation.
\<close>

theorem build_message_empty_string_ids:
  "taskId (fst (build_message rt txt (Some []) context_id w)) = None \<and>
   contextId (fst (build_message rt txt task_id (Some []) w)) = None \<and>
   build_message rt txt (Some []) (Some []) w = build_message rt txt None None w"
  by (simp add: build_message_def if_truthy_def)

text \<open>
  The identifier of a message is what the one call of \<^verbatim>\<open>uuid4().hex\<close> made by
  \<open>build_message\<close> returned; every invocation makes exactly one such call.
\<close>

lemma build_message_uuid_calls:
  "uuid_calls (snd (build_message rt txt task_id context_id w)) = Suc (uuid_calls w)"
  by (simp add: build_message_def)

section \<open>Rendering\<close>



section \<open>Auxiliary facts\<close>

text \<open>What the trace projections and the rendering leave alone.\<close>

lemma sent_append [simp]: "sent (xs @ ys) = sent xs @ sent ys"
  by (induction xs rule: sent.induct) simp_all

lemma prompts_append [simp]: "prompts (xs @ ys) = prompts xs @ prompts ys"
  by (induction xs rule: prompts.induct) simp_all

lemma trace_emit [simp]: "trace (emit ev w) = trace w @ [ev]"
  by (simp add: emit_def)

lemma uuid_calls_emit [simp]: "uuid_calls (emit ev w) = uuid_calls w"
  by (simp add: emit_def)

lemma print_json_response_quiet:
  assumes "print_json_response rt p title w = (r, w1)"
  shows "sent (trace w1) = sent (trace w)" and "prompts (trace w1) = prompts (trace w)"
    and "stdin w1 = stdin w" and "uuid_calls w1 = uuid_calls w"
    and "prefix (trace w @ [Print (CHR 0x0A # ''=== '' @ title @ '' ==='')]) (trace w1)"
  using assms
  by (auto simp: print_json_response_def Let_def prefix_def split: sum.splits if_splits)

lemma build_message_trace: "build_message rt tx a b w = (m, w1) \<Longrightarrow> trace w1 = trace w"
  by (auto simp: build_message_def)

text \<open>
  The first thing \<open>handle_message\<close> does that the terminal or the agent can see is to hand
  the message it built to the SDK.
\<close>

lemma handle_message_first_event:
  assumes "build_message rt tx a b w = (m, w1)"
  shows "prefix (trace w @ [SendMessage m]) (trace (snd (handle_message rt cl tx a b w)))"
proof -
  obtain items ending where sm: "send_message cl (sent (trace w1)) m = (items, ending)"
    by (cases "send_message cl (sent (trace w1)) m")
  obtain r w2 where dr: "drain rt cl items ending 0 (emit (SendMessage m) w1) = (r, w2)"
    by (cases "drain rt cl items ending 0 (emit (SendMessage m) w1)")
  from handle_message_drain_extends(2) [of "emit (SendMessage m) w1" rt cl items ending 0] dr
  have "prefix (trace w @ [SendMessage m]) (trace w2)"
    by (simp add: extends_def build_message_trace [OF assms])
  then have "prefix (trace w @ [SendMessage m]) (trace (emit ev w2))" for ev
    by (auto simp: prefix_def)
  with \<open>prefix (trace w @ [SendMessage m]) (trace w2)\<close> show ?thesis
    by (simp add: handle_message.simps assms sm dr split: sum.splits)
qed

text \<open>
  Stripping: a string that neither starts nor ends with white space is left as it is, and a
  string that lower-cases to an exit keyword is such a string.
\<close>

lemma isspace_lower_char: "isspace c \<Longrightarrow> lower_char c = c"
  by (auto simp: isspace_def lower_char_def Let_def)

lemma strip_no_space:
  assumes "s \<noteq> []" "\<not> isspace (hd s)" "\<not> isspace (last s)"
  shows "strip s = s"
proof -
  from assms have 1: "dropWhile isspace s = s"
    by (cases s) auto
  from assms have "dropWhile isspace (rev s) = rev s"
    by (cases "rev s") (auto simp: last_rev [symmetric] hd_rev)
  with 1 show ?thesis by (simp add: strip_def)
qed

lemma not_isspace_letters:
  assumes "lower_char c \<in> {CHR ''e'', CHR ''t'', CHR ''q''}"
  shows "\<not> isspace c"
proof
  assume sp: "isspace c"
  then have "lower_char c = c" by (rule isspace_lower_char)
  with assms have "c \<in> {CHR ''e'', CHR ''t'', CHR ''q''}" by simp
  with sp show False by (auto simp: isspace_def)
qed

lemma exit_keyword_strip:
  assumes "lower line \<in> exit_keywords"
  shows "strip line = line"
proof -
  from assms obtain a b c d where l: "line = [a, b, c, d]"
    and "(lower_char a = CHR ''e'' \<and> lower_char d = CHR ''t'') \<or>
         (lower_char a = CHR ''q'' \<and> lower_char d = CHR ''t'')"
    by (auto simp: exit_keywords_def lower_def)
  then have "\<not> isspace a" "\<not> isspace d"
    by (auto intro!: not_isspace_letters)
  with l show ?thesis by (simp add: strip_no_space)
qed

text \<open>One round of the loop on a pending line.\<close>

lemma while_True_step:
  assumes "stdin w = line # lines"
  shows "while_True rt cl w =
     (if lower (strip line) \<in> exit_keywords
      then (Inr (), emit (Print exiting_text) (emit (Input query_prompt) (w\<lparr>stdin := lines\<rparr>)))
      else (case handle_message rt cl (strip line) None None
                   (emit (Input query_prompt) (w\<lparr>stdin := lines\<rparr>)) of
              (Inl e, w2) \<Rightarrow> (Inl e, w2)
            | (Inr _, w2) \<Rightarrow> while_True rt cl w2))"
  using assms by (subst while_True.simps) (simp add: input_def Let_def)

section \<open>Draining the response sequence\<close>

text \<open>
  Claim C1. When the next item is a \<^verbatim>\<open>(Task, Update)\<close> pair whose task is in state
  input-required, its rendering has returned and the operator has a line pending, then
  \<open>drain\<close> takes exactly that one line (after one prompt), calls \<open>handle_message\<close> once
  with the line and the task's \<open>id\<close> and \<open>context_id\<close>, and goes on with the remaining
  items only from the world this nested call has left, and only if it returned normally.
  The first message sent after the prompt is the follow-up; it carries the line and the
  two identifiers of the task (where they are not empty).
\<close>

theorem drain_input_required:
  assumes "state (status tsk) = TaskState_input_required"
    and "print_json_response rt (Task_update_dict tsk upd) ''Streaming Update'' w = (Inr u, w1)"
    and "stdin w = line # lines"
  shows "drain rt cl (Tuple tsk upd # rest) ending response_count w =
           (case handle_message rt cl line (Some (id' tsk)) (Some (context_id' tsk))
                   (emit (Input follow_up_prompt) (w1\<lparr>stdin := lines\<rparr>)) of
              (Inl e, w3) \<Rightarrow> (Inl e, w3)
            | (Inr _, w3) \<Rightarrow> drain rt cl rest ending (Suc response_count) w3) \<and>
         (\<exists>m. prefix (trace w1 @ [Input follow_up_prompt, SendMessage m])
                 (trace (snd (handle_message rt cl line (Some (id' tsk)) (Some (context_id' tsk))
                   (emit (Input follow_up_prompt) (w1\<lparr>stdin := lines\<rparr>))))) \<and>
              parts m = [\<lparr>kind = ''text'', text' = line\<rparr>] \<and>
              (id' tsk \<noteq> [] \<longrightarrow> taskId m = Some (id' tsk)) \<and>
              (context_id' tsk \<noteq> [] \<longrightarrow> contextId m = Some (context_id' tsk)))"
proof -
  let ?w2 = "emit (Input follow_up_prompt) (w1\<lparr>stdin := lines\<rparr>)"
  from assms(2,3) have "stdin w1 = line # lines"
    by (simp add: print_json_response_quiet(3))
  then have inp: "input follow_up_prompt w1 = (Inr line, ?w2)"
    by (simp add: input_def)
  obtain m w' where bm:
    "build_message rt line (Some (id' tsk)) (Some (context_id' tsk)) ?w2 = (m, w')"
    by (cases "build_message rt line (Some (id' tsk)) (Some (context_id' tsk)) ?w2")
  from handle_message_first_event [OF bm, of cl]
  have "prefix (trace w1 @ [Input follow_up_prompt, SendMessage m])
          (trace (snd (handle_message rt cl line (Some (id' tsk)) (Some (context_id' tsk)) ?w2)))"
    by simp
  moreover from bm have "parts m = [\<lparr>kind = ''text'', text' = line\<rparr>]"
    "id' tsk \<noteq> [] \<longrightarrow> taskId m = Some (id' tsk)"
    "context_id' tsk \<noteq> [] \<longrightarrow> contextId m = Some (context_id' tsk)"
    by (auto simp: build_message_def if_truthy_def)
  moreover have "drain rt cl (Tuple tsk upd # rest) ending response_count w =
           (case handle_message rt cl line (Some (id' tsk)) (Some (context_id' tsk)) ?w2 of
              (Inl e, w3) \<Rightarrow> (Inl e, w3)
            | (Inr _, w3) \<Rightarrow> drain rt cl rest ending (Suc response_count) w3)"
    using assms(1,2) inp by simp
  ultimately show ?thesis by blast
qed

theorem drain_input_required_witness:
  "handle_message example_runtime asking_client ''Book a flight'' None None
     (example_world [''continue'']) =
     (Inr (),
      \<lparr>stdin = [], uuid_calls = 2,
       trace = [SendMessage \<lparr>role = Role_user,
                             parts = [\<lparr>kind = ''text'', text' = ''Book a flight''\<rparr>],
                             messageId = ''a'', taskId = None, contextId = None\<rparr>,
                Print (CHR 0x0A # ''=== Streaming Update ===''),
                RPrint_syntax ''{}'',
                Input follow_up_prompt,
                SendMessage \<lparr>role = Role_user,
                             parts = [\<lparr>kind = ''text'', text' = ''continue''\<rparr>],
                             messageId = ''aa'', taskId = Some ''t1'', contextId = Some ''c1''\<rparr>,
                Print (CHR 0x0A # ''=== Streaming Update ===''),
                RPrint_syntax ''{}'']\<rparr>)"
proof -
  let ?m1 = "\<lparr>role = Role_user, parts = [\<lparr>kind = ''text'', text' = ''Book a flight''\<rparr>],
             messageId = ''a'', taskId = None, contextId = None\<rparr>"
  let ?w = "\<lparr>stdin = [''continue''], uuid_calls = 1, trace = [SendMessage ?m1]\<rparr>"
  let ?w1 = "\<lparr>stdin = [''continue''], uuid_calls = 1,
             trace = [SendMessage ?m1, Print (CHR 0x0A # ''=== Streaming Update ===''),
                      RPrint_syntax ''{}'']\<rparr>"
  have 1: "state (status (example_task TaskState_input_required)) = TaskState_input_required"
    by (simp add: example_task_def)
  have 2: "print_json_response example_runtime
             (Task_update_dict (example_task TaskState_input_required) No_update)
             ''Streaming Update'' ?w = (Inr (), ?w1)"
    by (simp add: print_json_response_def example_runtime_def emit_def)
  have 3: "stdin ?w = ''continue'' # []"
    by simp
  from drain_input_required [OF 1 2 3, of asking_client "[]" None 0]
  show ?thesis
    by (simp add: handle_message.simps build_message_def example_runtime_def
        example_world_def asking_client_def example_task_def if_truthy_def emit_def
        print_json_response_def)
qed

text \<open>
  Claim C7. An item that is not a tuple is rendered under the title ``Agent Reply'' and
  nothing else is done for it: wherever it stands in the sequence, \<open>drain\<close> goes from the
  rendering straight to the remaining items (or leaves with the exception the rendering
  raised), and the rendering sends no message, asks the operator nothing, takes no pending
  line and draws no identifier.
\<close>

theorem drain_Reply_item:
  "\<exists>r w1. print_json_response rt (Item m) ''Agent Reply'' w = (r, w1) \<and>
     drain rt cl (Reply m # rest) ending response_count w =
       (case r of Inl e \<Rightarrow> (Inl e, w1)
        | Inr _ \<Rightarrow> drain rt cl rest ending (Suc response_count) w1) \<and>
     prefix (trace w @ [Print (CHR 0x0A # ''=== Agent Reply ==='')]) (trace w1) \<and>
     sent (trace w1) = sent (trace w) \<and> prompts (trace w1) = prompts (trace w) \<and>
     stdin w1 = stdin w \<and> uuid_calls w1 = uuid_calls w"
proof -
  obtain r w1 where pj: "print_json_response rt (Item m) ''Agent Reply'' w = (r, w1)"
    by (cases "print_json_response rt (Item m) ''Agent Reply'' w")
  have "drain rt cl (Reply m # rest) ending response_count w =
       (case r of Inl e \<Rightarrow> (Inl e, w1)
        | Inr _ \<Rightarrow> drain rt cl rest ending (Suc response_count) w1)"
    by (simp add: pj split: sum.splits)
  with pj print_json_response_quiet [OF pj] show ?thesis
    by simp
qed

theorem drain_Reply_item_witness:
  "handle_message example_runtime reply_client ''What time is it?'' None None (example_world []) =
     (Inr (),
      \<lparr>stdin = [], uuid_calls = 1,
       trace = [SendMessage \<lparr>role = Role_user,
                             parts = [\<lparr>kind = ''text'', text' = ''What time is it?''\<rparr>],
                             messageId = ''a'', taskId = None, contextId = None\<rparr>,
                Print (CHR 0x0A # ''=== Agent Reply ===''),
                RPrint_syntax ''{}'']\<rparr>)"
  using drain_Reply_item [of example_runtime example_reply
      "\<lparr>stdin = [], uuid_calls = 1,
        trace = [SendMessage \<lparr>role = Role_user,
                   parts = [\<lparr>kind = ''text'', text' = ''What time is it?''\<rparr>],
                   messageId = ''a'', taskId = None, contextId = None\<rparr>]\<rparr>"
      reply_client "[]" None 0]
  by (auto simp: handle_message.simps build_message_def example_runtime_def example_world_def
      reply_client_def if_truthy_def emit_def print_json_response_def)

section \<open>The outcome of one submission\<close>

text \<open>
  Claim C6. When the response sequence of a submission yields no item and ends,
  \<open>handle_message\<close> prints the ``no response'' text after sending the message and returns
  normally.
\<close>

theorem handle_message_no_response:
  assumes "build_message rt tx task_id context_id w = (message, w1)"
    and "send_message cl (sent (trace w1)) message = ([], None)"
  shows "handle_message rt cl tx task_id context_id w =
           (Inr (), emit (Print no_response_text) (emit (SendMessage message) w1))"
  using assms by (simp add: handle_message.simps)

theorem handle_message_no_response_witness:
  "handle_message example_runtime silent_client ''What time is it?'' None None (example_world []) =
     (Inr (),
      \<lparr>stdin = [], uuid_calls = 1,
       trace = [SendMessage \<lparr>role = Role_user,
                             parts = [\<lparr>kind = ''text'', text' = ''What time is it?''\<rparr>],
                             messageId = ''a'', taskId = None, contextId = None\<rparr>,
                Print no_response_text]\<rparr>)"
proof -
  let ?m = "\<lparr>role = Role_user, parts = [\<lparr>kind = ''text'', text' = ''What time is it?''\<rparr>],
            messageId = ''a'', taskId = None, contextId = None\<rparr>"
  let ?w1 = "\<lparr>stdin = [], uuid_calls = 1, trace = []\<rparr>"
  have 1: "build_message example_runtime ''What time is it?'' None None (example_world []) =
             (?m, ?w1)"
    by (simp add: build_message_def example_runtime_def example_world_def if_truthy_def)
  have 2: "send_message silent_client (sent (trace ?w1)) ?m = ([], None)"
    by (simp add: silent_client_def)
  from handle_message_no_response [OF 1 2] show ?thesis
    by (simp add: emit_def)
qed



section \<open>The interactive loop\<close>

text \<open>
  Claim C4. A line that lower-cases to \<^verbatim>\<open>exit\<close> or \<^verbatim>\<open>quit\<close> ends the loop
  normally: the prompt and the farewell are all that happens, and no message is sent.
\<close>

theorem while_True_exit:
  assumes "lower line \<in> exit_keywords" and "stdin w = line # lines"
  shows "while_True rt cl w =
           (Inr (), emit (Print exiting_text) (emit (Input query_prompt) (w\<lparr>stdin := lines\<rparr>))) \<and>
         sent (trace (snd (while_True rt cl w))) = sent (trace w)"
  using assms exit_keyword_strip [OF assms(1)] by (simp add: while_True_step)

theorem while_True_exit_witness:
  "while_True example_runtime reply_client (example_world [''EXIT'', ''hello'']) =
     (Inr (), \<lparr>stdin = [''hello''], uuid_calls = 0,
               trace = [Input query_prompt, Print exiting_text]\<rparr>) \<and>
   sent (trace (snd (while_True example_runtime reply_client
     (example_world [''EXIT'', ''hello''])))) = []"
proof -
  have "lower ''EXIT'' \<in> exit_keywords"
    by code_simp
  from while_True_exit [OF this, of "example_world [''EXIT'', ''hello'']" "[''hello'']"
      example_runtime reply_client]
  show ?thesis by (simp add: example_world_def emit_def)
qed

text \<open>
  Claim C5, as amended. A line whose stripped form does not lower-case to an exit keyword
  makes the loop call \<open>handle_message\<close> once, with the stripped line and no identifiers,
  and go on with the next line only when that call has returned normally. The first message
  sent after the prompt carries the stripped line and neither a task nor a context
  identifier.
\<close>

theorem while_True_query:
  assumes "lower (strip line) \<notin> exit_keywords" and "stdin w = line # lines"
  shows "while_True rt cl w =
           (case handle_message rt cl (strip line) None None
                   (emit (Input query_prompt) (w\<lparr>stdin := lines\<rparr>)) of
              (Inl e, w2) \<Rightarrow> (Inl e, w2)
            | (Inr _, w2) \<Rightarrow> while_True rt cl w2) \<and>
         (\<exists>m. prefix (trace w @ [Input query_prompt, SendMessage m])
                 (trace (snd (handle_message rt cl (strip line) None None
                   (emit (Input query_prompt) (w\<lparr>stdin := lines\<rparr>))))) \<and>
              parts m = [\<lparr>kind = ''text'', text' = strip line\<rparr>] \<and>
              taskId m = None \<and> contextId m = None)"
proof -
  let ?w1 = "emit (Input query_prompt) (w\<lparr>stdin := lines\<rparr>)"
  obtain m w2 where bm: "build_message rt (strip line) None None ?w1 = (m, w2)"
    by (cases "build_message rt (strip line) None None ?w1")
  from handle_message_first_event [OF bm, of cl]
  have "prefix (trace w @ [Input query_prompt, SendMessage m])
          (trace (snd (handle_message rt cl (strip line) None None ?w1)))"
    by simp
  moreover from bm have "parts m = [\<lparr>kind = ''text'', text' = strip line\<rparr>]"
    "taskId m = None" "contextId m = None"
    by (auto simp: build_message_def if_truthy_def)
  ultimately show ?thesis
    using assms by (auto simp: while_True_step)
qed

theorem while_True_query_witness:
  "while_True example_runtime reply_client (example_world [''  What time is it? '', ''quit'']) =
     (Inr (),
      \<lparr>stdin = [], uuid_calls = 1,
       trace = [Input query_prompt,
                SendMessage \<lparr>role = Role_user,
                             parts = [\<lparr>kind = ''text'', text' = ''What time is it?''\<rparr>],
                             messageId = ''a'', taskId = None, contextId = None\<rparr>,
                Print (CHR 0x0A # ''=== Agent Reply ===''),
                RPrint_syntax ''{}'',
                Input query_prompt,
                Print exiting_text]\<rparr>)"
proof -
  have s: "strip ''  What time is it? '' = ''What time is it?''"
    by code_simp
  have 1: "lower (strip ''  What time is it? '') \<notin> exit_keywords"
    by code_simp
  have 2: "lower (strip ''quit'') \<in> exit_keywords"
    by code_simp
  have 3: "stdin (example_world [''  What time is it? '', ''quit'']) =
             ''  What time is it? '' # [''quit'']"
    by (simp add: example_world_def)
  from while_True_query [OF 1 3, of example_runtime reply_client] 2
  show ?thesis
    by (simp add: s handle_message.simps build_message_def example_runtime_def
        example_world_def reply_client_def if_truthy_def emit_def print_json_response_def
        while_True_step [of _ "''quit''" "[]"])
qed

text \<open>
  The claim as first stated compares the line itself with the exit keywords. The line
  \<^verbatim>\<open>" exit"\<close> is not an exit keyword, in any case of its letters, yet the loop strips it
  first and ends without sending anything.
\<close>

theorem while_True_stripped_exit_counterexample:
  "lower '' exit'' \<notin> exit_keywords \<and>
   sent (trace (snd (while_True example_runtime reply_client (example_world ['' exit''])))) = []"
proof -
  have 1: "lower '' exit'' \<notin> exit_keywords"
    by code_simp
  have 2: "lower (strip '' exit'') \<in> exit_keywords"
    by code_simp
  have "stdin (example_world ['' exit'']) = '' exit'' # []"
    by (simp add: example_world_def)
  from while_True_step [OF this, of example_runtime reply_client] 2
  have "sent (trace (snd (while_True example_runtime reply_client
          (example_world ['' exit''])))) = []"
    by (simp add: example_world_def emit_def)
  with 1 show ?thesis by simp
qed

end
